theory Spec2Isabelle
  imports Main "HOL-Library.Sublist" "HOL-Library.AList"
begin

section \<open>Strings\<close>

text \<open>
  A Python \<open>str\<close> is modelled as a \<open>string\<close>; a \<open>char\<close> stands for the code point of
  the same number, so the model covers the strings over the code points 0..255 (ASCII and
  the Latin-1 supplement). On that range \<open>str.lower\<close>, \<open>str.strip\<close> and the regular
  expression classes \<open>\\d\<close> and \<open>\\s\<close> are as written below, and \<open>str.lower\<close> does not
  leave the range.
\<close>

definition isspace :: "char \<Rightarrow> bool" where
  \<comment> \<open>\<open>str.isspace\<close> of one character, also the class \<open>\\s\<close> of \<open>re\<close> on a \<open>str\<close> pattern:
     TAB, LF, VT, FF, CR, the separators FS, GS, RS, US, the space, NEL and the
     no-break space.\<close>
  "isspace c =
     (let n = (of_char c :: nat)
      in (9 \<le> n \<and> n \<le> 13) \<or> (28 \<le> n \<and> n \<le> 32) \<or> n = 133 \<or> n = 160)"

definition isdecimal :: "char \<Rightarrow> bool" where
  \<comment> \<open>the class \<open>\\d\<close> of \<open>re\<close>: the decimal digits, which below 256 are \<open>0\<close> to \<open>9\<close>\<close>
  "isdecimal c = (let n = (of_char c :: nat) in 48 \<le> n \<and> n \<le> 57)"

definition isupper :: "char \<Rightarrow> bool" where
  \<comment> \<open>the characters \<open>str.lower\<close> changes: \<open>A\<close> to \<open>Z\<close>, and the capital letters of
     Latin-1 (0xC0 to 0xDE without the multiplication sign 0xD7)\<close>
  "isupper c =
     (let n = (of_char c :: nat)
      in (65 \<le> n \<and> n \<le> 90) \<or> (192 \<le> n \<and> n \<le> 222 \<and> n \<noteq> 215))"

definition lower_char :: "char \<Rightarrow> char" where
  "lower_char c = (if isupper c then char_of ((of_char c :: nat) + 32) else c)"

definition lower :: "string \<Rightarrow> string" where
  \<comment> \<open>\<open>s.lower()\<close>\<close>
  "lower s = map lower_char s"

definition lstrip :: "string \<Rightarrow> string" where
  "lstrip s = dropWhile isspace s"

definition rstrip :: "string \<Rightarrow> string" where
  "rstrip s = rev (dropWhile isspace (rev s))"

definition strip :: "string \<Rightarrow> string" where
  \<comment> \<open>\<open>s.strip()\<close>: whitespace removed at both ends\<close>
  "strip s = rstrip (lstrip s)"

fun contains :: "string \<Rightarrow> string \<Rightarrow> bool" where
  \<comment> \<open>\<open>contains sub s\<close> is Python's \<open>sub in s\<close> on strings\<close>
  "contains sub [] = (sub = [])"
| "contains sub (c # cs) = (prefix sub (c # cs) \<or> contains sub cs)"

fun str_nat :: "nat \<Rightarrow> string" where
  \<comment> \<open>\<open>str(n)\<close> of a non-negative integer: its decimal digits\<close>
  "str_nat n =
     (if n < 10 then [char_of (48 + n)]
      else str_nat (n div 10) @ [char_of (48 + n mod 10)])"

definition py_str :: "string option \<Rightarrow> string" where
  \<comment> \<open>what an f-string prints for a value that is a \<open>str\<close> or \<open>None\<close>\<close>
  "py_str v = (case v of None \<Rightarrow> ''None'' | Some s \<Rightarrow> s)"

section \<open>Input validation\<close>

text \<open>
  \<^verbatim>\<open>re.match(r'^[\d.,\s]+$', t)\<close>: the match starts at the beginning of \<open>t\<close>, the class is
  repeated at least once, and \<open>$\<close> (without MULTILINE) holds at the end of the string and
  just before a line feed that ends the string. The repetition is greedy and backtracks,
  so every length from that of the longest run of class characters down to 1 is tried.
\<close>

definition numeric_class :: "char \<Rightarrow> bool" where
  \<comment> \<open>the character class \<^verbatim>\<open>[\d.,\s]\<close>\<close>
  "numeric_class c = (isdecimal c \<or> c = CHR ''.'' \<or> c = CHR '','' \<or> isspace c)"

definition at_dollar :: "string \<Rightarrow> bool" where
  \<comment> \<open>\<open>$\<close> holds where the rest of the subject is empty or one final line feed\<close>
  "at_dollar rest = (rest = [] \<or> rest = [CHR 0x0A])"

definition re_match_numeric :: "string \<Rightarrow> bool" where
  "re_match_numeric t =
     list_ex (\<lambda>k. at_dollar (drop k t))
       (rev [1 ..< Suc (length (takeWhile numeric_class t))])"

definition msg_empty :: string where
  "msg_empty = ''Drug name cannot be empty''"

definition msg_numeric :: string where
  "msg_numeric = ''Invalid input: Drug name cannot be purely numeric''"

definition validate_drug_input :: "string option \<Rightarrow> bool \<times> string option" where
  \<comment> \<open>\<open>_validate_drug_input\<close>; the argument \<open>None\<close> is Python's \<open>None\<close>, which
     \<open>not drug_name\<close> catches like the empty string\<close>
  "validate_drug_input drug_name =
     (case drug_name of
        None \<Rightarrow> (False, Some msg_empty)
      | Some s \<Rightarrow>
          if s = [] \<or> strip s = [] then (False, Some msg_empty)
          else if re_match_numeric (strip s) then (False, Some msg_numeric)
          else (True, None))"

section \<open>The table and its construction\<close>

text \<open>
  The \<open>DataFrame\<close> that \<open>pd.read_csv\<close> returns: the header list and the rows in file
  order, each row giving the cell under a header. A cell of a text column is a string, or
  \<open>NaN\<close> where the file has no value; the cells of a column the program never inspects
  (the level) are carried as they are read. What pandas raises is a value of \<open>exn\<close>.
\<close>

datatype cell = Str string | NaN

record dataframe =
  columns :: "string list"
  rows :: "(string \<Rightarrow> cell) list"

datatype exn = FileNotFoundError | IndexError | KeyError | AttributeError | OtherError

datatype load_failure =
    CSV_file_not_found string    \<comment> \<open>\<open>FileNotFoundError("CSV file not found: ...")\<close>\<close>
  | Error_loading_data exn       \<comment> \<open>\<open>Exception("Error loading data: " + str(e))\<close>\<close>

record checker =
  df :: dataframe
  filepath :: string
  drug1_col :: string
  drug2_col :: string
  level_col :: string

definition get_column :: "dataframe \<Rightarrow> string \<Rightarrow> exn + cell list" where
  \<comment> \<open>\<open>df[col]\<close>: KeyError for a label the frame does not have\<close>
  "get_column frame col =
     (if col \<in> set (columns frame) then Inr (map (\<lambda>r. r col) (rows frame))
      else Inl KeyError)"

definition set_column :: "dataframe \<Rightarrow> string \<Rightarrow> cell list \<Rightarrow> dataframe" where
  \<comment> \<open>\<open>df[col] = series\<close>, for a series with one value per row; a new label is
     appended to the columns\<close>
  "set_column frame col series =
     \<lparr>columns = (if col \<in> set (columns frame) then columns frame
                 else columns frame @ [col]),
      rows = map (\<lambda>(r, v). r(col := v)) (zip (rows frame) series)\<rparr>"

definition columns_at :: "string list \<Rightarrow> nat \<Rightarrow> exn + string" where
  \<comment> \<open>\<open>df.columns[i]\<close> for a literal index \<open>i \<ge> 0\<close>\<close>
  "columns_at cols i = (if i < length cols then Inr (cols ! i) else Inl IndexError)"

definition str_accessor :: "cell list \<Rightarrow> exn + cell list" where
  \<comment> \<open>\<open>series.str\<close>: pandas raises AttributeError unless the series holds strings; a
     column read without any value has a float dtype, a frame without rows has object
     columns\<close>
  "str_accessor series =
     (if series = [] \<or> list_ex (\<lambda>c. c \<noteq> NaN) series then Inr series
      else Inl AttributeError)"

definition str_lower :: "cell list \<Rightarrow> cell list" where
  "str_lower series = map (\<lambda>c. case c of Str s \<Rightarrow> Str (lower s) | NaN \<Rightarrow> NaN) series"

definition str_strip :: "cell list \<Rightarrow> cell list" where
  "str_strip series = map (\<lambda>c. case c of Str s \<Rightarrow> Str (strip s) | NaN \<Rightarrow> NaN) series"

definition lower_strip :: "exn + cell list \<Rightarrow> exn + cell list" where
  \<comment> \<open>\<open>series.str.lower().str.strip()\<close>\<close>
  "lower_strip series =
     (case series of
        Inl e \<Rightarrow> Inl e
      | Inr s0 \<Rightarrow>
     (case str_accessor s0 of
        Inl e \<Rightarrow> Inl e
      | Inr s \<Rightarrow>
     (case str_accessor (str_lower s) of
        Inl e \<Rightarrow> Inl e
      | Inr s' \<Rightarrow> Inr (str_strip s'))))"

definition is_drug_a_header :: "string \<Rightarrow> bool" where
  \<comment> \<open>\<open>'drug' in col.lower() and 'a' in col.lower()\<close>\<close>
  "is_drug_a_header col = (contains ''drug'' (lower col) \<and> contains ''a'' (lower col))"

definition is_drug_b_header :: "string \<Rightarrow> bool" where
  \<comment> \<open>\<open>'drug' in col.lower() and 'b' in col.lower()\<close>\<close>
  "is_drug_b_header col = (contains ''drug'' (lower col) \<and> contains ''b'' (lower col))"

definition is_level_header :: "string \<Rightarrow> bool" where
  \<comment> \<open>\<open>'level' in col.lower() or 'severity' in col.lower()\<close>\<close>
  "is_level_header col = (contains ''level'' (lower col) \<or> contains ''severity'' (lower col))"

definition drug_a_candidates :: "string list \<Rightarrow> string list" where
  "drug_a_candidates cols = filter is_drug_a_header cols"

definition drug_b_candidates :: "string list \<Rightarrow> string list" where
  "drug_b_candidates cols = filter is_drug_b_header cols"

definition level_candidates :: "string list \<Rightarrow> string list" where
  "level_candidates cols = filter is_level_header cols"

definition first_or_column :: "string list \<Rightarrow> string list \<Rightarrow> nat \<Rightarrow> exn + string" where
  \<comment> \<open>\<open>candidates[0] if candidates else df.columns[i]\<close>\<close>
  "first_or_column candidates cols i =
     (case candidates of c # _ \<Rightarrow> Inr c | [] \<Rightarrow> columns_at cols i)"

definition detect_columns :: "string list \<Rightarrow> exn + string \<times> string \<times> string" where
  \<comment> \<open>lines 26 to 36 of \<open>_load_data\<close>: the three column roles, in the order the source
     resolves them\<close>
  "detect_columns cols =
     (case first_or_column (drug_a_candidates cols) cols 1 of
        Inl e \<Rightarrow> Inl e
      | Inr c1 \<Rightarrow>
     (case first_or_column (drug_b_candidates cols) cols 3 of
        Inl e \<Rightarrow> Inl e
      | Inr c2 \<Rightarrow>
     (case first_or_column (level_candidates cols) cols 4 of
        Inl e \<Rightarrow> Inl e
      | Inr c3 \<Rightarrow> Inr (c1, c2, c3))))"

definition normalize_columns :: "dataframe \<Rightarrow> string \<Rightarrow> string \<Rightarrow> exn + dataframe" where
  \<comment> \<open>lines 40 to 42: the first assignment is done before the second column is read\<close>
  "normalize_columns frame c1 c2 =
     (case lower_strip (get_column frame c1) of
        Inl e \<Rightarrow> Inl e
      | Inr s1 \<Rightarrow>
          (let frame1 = set_column frame c1 s1
           in case lower_strip (get_column frame1 c2) of
                Inl e \<Rightarrow> Inl e
              | Inr s2 \<Rightarrow> Inr (set_column frame1 c2 s2)))"

definition try_load :: "(string \<Rightarrow> exn + dataframe) \<Rightarrow> string \<Rightarrow> exn + checker" where
  \<comment> \<open>the body of the \<open>try\<close> of \<open>_load_data\<close>; \<open>read_csv\<close> is the file system seen
     through \<open>pd.read_csv\<close>\<close>
  "try_load read_csv path =
     (case read_csv path of
        Inl e \<Rightarrow> Inl e
      | Inr frame \<Rightarrow>
     (case detect_columns (columns frame) of
        Inl e \<Rightarrow> Inl e
      | Inr (c1, c2, c3) \<Rightarrow>
     (case normalize_columns frame c1 c2 of
        Inl e \<Rightarrow> Inl e
      | Inr frame' \<Rightarrow>
          Inr \<lparr>df = frame', filepath = path,
               drug1_col = c1, drug2_col = c2, level_col = c3\<rparr>)))"

definition load_data :: "(string \<Rightarrow> exn + dataframe) \<Rightarrow> string \<Rightarrow> load_failure + checker" where
  "load_data read_csv path =
     (case try_load read_csv path of
        Inl FileNotFoundError \<Rightarrow> Inl (CSV_file_not_found path)
      | Inl e \<Rightarrow> Inl (Error_loading_data e)
      | Inr self \<Rightarrow> Inr self)"

definition init :: "(string \<Rightarrow> exn + dataframe) \<Rightarrow> string \<Rightarrow> load_failure + checker" where
  \<comment> \<open>\<open>DrugInteractionChecker(csv_filepath)\<close>: the object exists only if \<open>_load_data\<close>
     returns\<close>
  "init read_csv csv_filepath = load_data read_csv csv_filepath"

section \<open>The queries\<close>

record result =
  status :: string
  message :: string
  data :: "(string \<times> cell) list list option"

definition series_eq :: "exn + cell list \<Rightarrow> string \<Rightarrow> exn + bool list" where
  \<comment> \<open>\<open>series == d\<close>, element by element; \<open>NaN\<close> equals no string\<close>
  "series_eq series d =
     (case series of Inl e \<Rightarrow> Inl e | Inr s \<Rightarrow> Inr (map (\<lambda>c. c = Str d) s))"

definition mask_and :: "exn + bool list \<Rightarrow> exn + bool list \<Rightarrow> exn + bool list" where
  \<comment> \<open>\<open>m1 & m2\<close>; the left operand is evaluated first\<close>
  "mask_and m1 m2 =
     (case m1 of
        Inl e \<Rightarrow> Inl e
      | Inr b1 \<Rightarrow>
          (case m2 of
             Inl e \<Rightarrow> Inl e
           | Inr b2 \<Rightarrow> Inr (map (\<lambda>(x, y). x \<and> y) (zip b1 b2))))"

definition mask_or :: "exn + bool list \<Rightarrow> exn + bool list \<Rightarrow> exn + bool list" where
  \<comment> \<open>\<open>m1 | m2\<close>\<close>
  "mask_or m1 m2 =
     (case m1 of
        Inl e \<Rightarrow> Inl e
      | Inr b1 \<Rightarrow>
          (case m2 of
             Inl e \<Rightarrow> Inl e
           | Inr b2 \<Rightarrow> Inr (map (\<lambda>(x, y). x \<or> y) (zip b1 b2))))"

definition getitem_mask :: "dataframe \<Rightarrow> exn + bool list \<Rightarrow> exn + dataframe" where
  \<comment> \<open>\<open>df[mask]\<close>: a new frame with the rows whose mask entry is True, in order\<close>
  "getitem_mask frame bools =
     (case bools of
        Inl e \<Rightarrow> Inl e
      | Inr bs \<Rightarrow> Inr (frame\<lparr>rows := map fst (filter snd (zip (rows frame) bs))\<rparr>))"

definition getitem_cols :: "dataframe \<Rightarrow> string list \<Rightarrow> exn + dataframe" where
  \<comment> \<open>\<open>df[[c1, c2, c3]]\<close>: a new frame with the listed columns, KeyError if one is
     not a label of the frame\<close>
  "getitem_cols frame cols =
     (if list_all (\<lambda>c. c \<in> set (columns frame)) cols then Inr (frame\<lparr>columns := cols\<rparr>)
      else Inl KeyError)"

definition df_empty :: "dataframe \<Rightarrow> bool" where
  \<comment> \<open>\<open>df.empty\<close>: some axis has length 0\<close>
  "df_empty frame = (rows frame = [] \<or> columns frame = [])"

definition dict_of_row :: "string list \<Rightarrow> (string \<Rightarrow> cell) \<Rightarrow> (string \<times> cell) list" where
  \<comment> \<open>the dict of one row: the keys in column order, a label listed twice keeps one key\<close>
  "dict_of_row cols r = foldl (\<lambda>d col. AList.update col (r col) d) [] cols"

definition to_dict_records :: "dataframe \<Rightarrow> (string \<times> cell) list list" where
  \<comment> \<open>\<open>df.to_dict('records')\<close>\<close>
  "to_dict_records frame = map (dict_of_row (columns frame)) (rows frame)"

text \<open>
  A query is a method call on the checker object: its value here is what the call returns
  or raises, paired with the object as the call leaves it.
\<close>

definition check_interaction :: "checker \<Rightarrow> string \<Rightarrow> string \<Rightarrow> (exn + result) \<times> checker" where
  "check_interaction self drug1 drug2 =
     (let (is_valid, error_msg) = validate_drug_input (Some drug1) in
      if \<not> is_valid then
        (Inr \<lparr>status = ''invalid_input'',
              message = ''Drug 1 - '' @ py_str error_msg,
              data = None\<rparr>, self)
      else
     (let (is_valid, error_msg) = validate_drug_input (Some drug2) in
      if \<not> is_valid then
        (Inr \<lparr>status = ''invalid_input'',
              message = ''Drug 2 - '' @ py_str error_msg,
              data = None\<rparr>, self)
      else
     (let d1 = strip (lower drug1);
          d2 = strip (lower drug2)
      in
      if d1 = d2 then
        (Inr \<lparr>status = ''error'',
              message = ''Cannot check interaction of a drug with itself'',
              data = None\<rparr>, self)
      else
     (case getitem_mask (df self)
            (mask_or
               (mask_and (series_eq (get_column (df self) (drug1_col self)) d1)
                         (series_eq (get_column (df self) (drug2_col self)) d2))
               (mask_and (series_eq (get_column (df self) (drug1_col self)) d2)
                         (series_eq (get_column (df self) (drug2_col self)) d1)))
      of
        Inl e \<Rightarrow> (Inl e, self)
      | Inr match \<Rightarrow>
          if \<not> df_empty match then
            (case getitem_cols match [drug1_col self, drug2_col self, level_col self] of
               Inl e \<Rightarrow> (Inl e, self)
             | Inr selected \<Rightarrow>
                 (let interactions = to_dict_records selected
                  in (Inr \<lparr>status = ''found'',
                           message = ''Interaction found between '' @ drug1
                                     @ '' and '' @ drug2,
                           data = Some interactions\<rparr>, self)))
          else
            (Inr \<lparr>status = ''not_found'',
                  message = ''No significant interaction found'',
                  data = None\<rparr>, self)))))"

definition get_all_interactions_for_drug :: "checker \<Rightarrow> string \<Rightarrow> (exn + result) \<times> checker" where
  "get_all_interactions_for_drug self drug_name =
     (let (is_valid, error_msg) = validate_drug_input (Some drug_name) in
      if \<not> is_valid then
        (Inr \<lparr>status = ''invalid_input'',
              message = py_str error_msg,
              data = None\<rparr>, self)
      else
     (let drug = strip (lower drug_name) in
      case getitem_mask (df self)
             (mask_or (series_eq (get_column (df self) (drug1_col self)) drug)
                      (series_eq (get_column (df self) (drug2_col self)) drug))
      of
        Inl e \<Rightarrow> (Inl e, self)
      | Inr matches \<Rightarrow>
          if \<not> df_empty matches then
            (case getitem_cols matches [drug1_col self, drug2_col self, level_col self] of
               Inl e \<Rightarrow> (Inl e, self)
             | Inr selected \<Rightarrow>
                 (let interactions = to_dict_records selected
                  in (Inr \<lparr>status = ''found'',
                           message = ''Found '' @ str_nat (length interactions)
                                     @ '' interaction(s) for '' @ drug_name,
                           data = Some interactions\<rparr>, self)))
          else
            (Inr \<lparr>status = ''not_found'',
                  message = ''No interactions found for '' @ drug_name,
                  data = None\<rparr>, self)))"

section \<open>Notions of the specification\<close>

definition normalize :: "string \<Rightarrow> string" where
  \<comment> \<open>normalization of a drug name: lowercase, then trim\<close>
  "normalize s = strip (lower s)"

definition valid :: "string \<Rightarrow> bool" where
  "valid s = fst (validate_drug_input (Some s))"

definition is_lowercase :: "string \<Rightarrow> bool" where
  "is_lowercase s = list_all (\<lambda>c. \<not> isupper c) s"

definition is_trimmed :: "string \<Rightarrow> bool" where
  "is_trimmed s = (s = [] \<or> (\<not> isspace (hd s) \<and> \<not> isspace (last s)))"

definition normalized_cell :: "cell \<Rightarrow> bool" where
  \<comment> \<open>a drug-name field that holds a string holds a lowercase, trimmed one\<close>
  "normalized_cell c = (case c of NaN \<Rightarrow> True | Str s \<Rightarrow> is_lowercase s \<and> is_trimmed s)"

definition normalize_cell :: "cell \<Rightarrow> cell" where
  "normalize_cell c = (case c of NaN \<Rightarrow> NaN | Str s \<Rightarrow> Str (normalize s))"

definition normalize_row :: "string \<Rightarrow> string \<Rightarrow> (string \<Rightarrow> cell) \<Rightarrow> (string \<Rightarrow> cell)" where
  \<comment> \<open>a row with its cell under \<open>c1\<close> normalized, then its cell under \<open>c2\<close>\<close>
  "normalize_row c1 c2 r =
     (let r1 = r(c1 := normalize_cell (r c1)) in r1(c2 := normalize_cell (r1 c2)))"

definition has_roles :: "checker \<Rightarrow> bool" where
  \<comment> \<open>the three column roles are labels of the table\<close>
  "has_roles self =
     (drug1_col self \<in> set (columns (df self)) \<and>
      drug2_col self \<in> set (columns (df self)) \<and>
      level_col self \<in> set (columns (df self)))"

definition pair_match :: "checker \<Rightarrow> string \<Rightarrow> string \<Rightarrow> (string \<Rightarrow> cell) \<Rightarrow> bool" where
  \<comment> \<open>(drugA == d1 AND drugB == d2) OR (drugA == d2 AND drugB == d1)\<close>
  "pair_match self d1 d2 r =
     ((r (drug1_col self) = Str d1 \<and> r (drug2_col self) = Str d2) \<or>
      (r (drug1_col self) = Str d2 \<and> r (drug2_col self) = Str d1))"

definition drug_match :: "checker \<Rightarrow> string \<Rightarrow> (string \<Rightarrow> cell) \<Rightarrow> bool" where
  \<comment> \<open>drugA == drug OR drugB == drug\<close>
  "drug_match self d r = (r (drug1_col self) = Str d \<or> r (drug2_col self) = Str d)"

definition record_of :: "checker \<Rightarrow> (string \<Rightarrow> cell) \<Rightarrow> (string \<times> cell) list" where
  \<comment> \<open>the interaction record of a row: its drug A, drug B and level fields\<close>
  "record_of self r = dict_of_row [drug1_col self, drug2_col self, level_col self] r"

definition picks :: "(string \<Rightarrow> bool) \<Rightarrow> nat \<Rightarrow> string list \<Rightarrow> string \<Rightarrow> bool" where
  \<comment> \<open>\<open>c\<close> is the first header that passes the test \<open>P\<close>, or, when no header passes,
     the header at index \<open>k\<close>\<close>
  "picks P k cols c =
     (\<exists>i < length cols. c = cols ! i \<and>
        (if \<exists>h \<in> set cols. P h then P (cols ! i) \<and> (\<forall>j < i. \<not> P (cols ! j))
         else i = k))"

definition same_drug_error :: result where
  "same_drug_error =
     \<lparr>status = ''error'',
      message = ''Cannot check interaction of a drug with itself'',
      data = None\<rparr>"

section \<open>An example table\<close>

definition example_frame :: dataframe where
  "example_frame =
     \<lparr>columns = [''id'', ''Drug_A'', ''other'', ''Drug_B'', ''Level''],
      rows =
        [(\<lambda>_. NaN)(''id'' := Str ''1'', ''Drug_A'' := Str ''Aspirin'',
            ''other'' := Str ''x'', ''Drug_B'' := Str '' Warfarin '', ''Level'' := Str ''Major''),
         (\<lambda>_. NaN)(''id'' := Str ''2'', ''Drug_A'' := Str ''IBUPROFEN'',
            ''other'' := Str ''y'', ''Drug_B'' := Str ''aspirin'', ''Level'' := Str ''Minor'')]\<rparr>"

definition example_read_csv :: "string \<Rightarrow> exn + dataframe" where
  "example_read_csv path =
     (if path = ''drug_interaction.csv'' then Inr example_frame else Inl FileNotFoundError)"

definition example_checker :: checker where
  "example_checker = projr (init example_read_csv ''drug_interaction.csv'')"

text \<open>A table whose first header passes both the drug A test and the level test.\<close>

definition collision_frame :: dataframe where
  "collision_frame =
     \<lparr>columns = [''Drug_Interaction_Level'', ''Drug_A'', ''Drug_B''],
      rows =
        [(\<lambda>_. NaN)(''Drug_Interaction_Level'' := Str ''Major'',
            ''Drug_A'' := Str ''Aspirin'', ''Drug_B'' := Str ''Warfarin'')]\<rparr>"

definition collision_read_csv :: "string \<Rightarrow> exn + dataframe" where
  "collision_read_csv path = Inr collision_frame"

definition collision_checker :: checker where
  "collision_checker = projr (init collision_read_csv ''drug_interaction.csv'')"

text \<open>A table of two columns whose headers pass none of the tests.\<close>

definition short_frame :: dataframe where
  "short_frame =
     \<lparr>columns = [''name'', ''dose''],
      rows = [(\<lambda>_. NaN)(''name'' := Str ''Aspirin'', ''dose'' := Str ''low'')]\<rparr>"

definition short_read_csv :: "string \<Rightarrow> exn + dataframe" where
  "short_read_csv path = Inr short_frame"

section \<open>Facts about strings\<close>

lemma re_match_numeric_iff:
  "re_match_numeric t \<longleftrightarrow> t \<noteq> [] \<and> list_all numeric_class t"
proof
  assume "re_match_numeric t"
  then obtain k where k: "1 \<le> k" "k \<le> length (takeWhile numeric_class t)"
    and d: "at_dollar (drop k t)"
    by (auto simp: re_match_numeric_def list_ex_iff)
  from k have ne: "t \<noteq> []" by auto
  have pre: "list_all numeric_class (take k t)"
  proof -
    have "take k t = take k (takeWhile numeric_class t)"
      using k(2) by (metis append_eq_conv_conj takeWhile_dropWhile_id take_append take_all_iff
          diff_is_0_eq' take_0 append_Nil2 append_take_drop_id)
    then show ?thesis
      by (metis in_set_takeD list_all_iff set_takeWhileD)
  qed
  have post: "list_all numeric_class (drop k t)"
    using d by (auto simp: at_dollar_def numeric_class_def isspace_def)
  have "list_all numeric_class (take k t @ drop k t)"
    using pre post by (simp only: list_all_append)
  then show "t \<noteq> [] \<and> list_all numeric_class t" using ne by simp
next
  assume a: "t \<noteq> [] \<and> list_all numeric_class t"
  then have tw: "takeWhile numeric_class t = t"
    by (simp add: list_all_iff)
  have "at_dollar (drop (length t) t)" by (simp add: at_dollar_def)
  moreover have "length t \<in> set (rev [1 ..< Suc (length t)])"
    using a by (cases t) auto
  ultimately have "\<exists>k \<in> set (rev [1 ..< Suc (length t)]). at_dollar (drop k t)"
    by blast
  then show "re_match_numeric t"
    unfolding re_match_numeric_def list_ex_iff tw .
qed

lemma isupper_lower_char: "\<not> isupper (lower_char c)"
  by (simp add: lower_char_def isupper_def Let_def) 

lemma isspace_lower_char: "isspace (lower_char c) = isspace c"
  by (auto simp add: lower_char_def isupper_def isspace_def Let_def) 

lemma contains_iff: "contains sub s \<longleftrightarrow> (\<exists>pre post. s = pre @ sub @ post)"
proof (induction s)
  case Nil
  then show ?case by auto
next
  case (Cons c cs)
  show ?case
  proof
    assume "contains sub (c # cs)"
    then consider "prefix sub (c # cs)" | "contains sub cs" by auto
    then show "\<exists>pre post. c # cs = pre @ sub @ post"
    proof cases
      case 1
      then obtain post where "c # cs = sub @ post" by (auto simp: prefix_def)
      then have "c # cs = [] @ sub @ post" by simp
      then show ?thesis by blast
    next
      case 2
      then obtain pre post where "cs = pre @ sub @ post" using Cons.IH by blast
      then have "c # cs = (c # pre) @ sub @ post" by simp
      then show ?thesis by blast
    qed
  next
    assume "\<exists>pre post. c # cs = pre @ sub @ post"
    then obtain pre post where e: "c # cs = pre @ sub @ post" by blast
    show "contains sub (c # cs)"
    proof (cases pre)
      case Nil
      then have "prefix sub (c # cs)" using e by (metis append_Nil prefixI)
      then show ?thesis by simp
    next
      case (Cons p ps)
      then have "cs = ps @ sub @ post" using e by simp
      then show ?thesis using Cons.IH by auto
    qed
  qed
qed

lemma lower_char_idem: "lower_char (lower_char c) = lower_char c"
  using isupper_lower_char [of c] by (simp add: lower_char_def)

lemma lower_idem: "lower (lower s) = lower s"
  by (simp add: lower_def lower_char_idem)

lemma no_upper_lower: "\<forall>c \<in> set (lower s). \<not> isupper c"
  by (auto simp: lower_def isupper_lower_char)

lemma lower_fixed_iff: "lower s = s \<longleftrightarrow> (\<forall>c \<in> set s. \<not> isupper c)"
proof (induction s)
  case Nil
  then show ?case by (simp add: lower_def)
next
  case (Cons c cs)
  have "lower_char c = c \<longleftrightarrow> \<not> isupper c"
    using isupper_lower_char [of c] by (auto simp: lower_char_def)
  then show ?case using Cons by (simp add: lower_def)
qed

lemma dropWhile_isspace_lower:
  "dropWhile isspace (map lower_char s) = map lower_char (dropWhile isspace s)"
  by (induction s) (simp_all add: isspace_lower_char)

lemma strip_lower: "strip (lower s) = lower (strip s)"
  by (simp add: strip_def lstrip_def rstrip_def lower_def dropWhile_isspace_lower rev_map)

lemma rstrip_idem: "rstrip (rstrip s) = rstrip s"
  by (simp add: rstrip_def dropWhile_idem)

lemma lstrip_head: "lstrip s \<noteq> [] \<Longrightarrow> \<not> isspace (hd (lstrip s))"
  unfolding lstrip_def by (rule hd_dropWhile)

lemma rstrip_last: "rstrip s \<noteq> [] \<Longrightarrow> \<not> isspace (last (rstrip s))"
  unfolding rstrip_def using hd_dropWhile [of isspace "rev s"]
  by (simp add: last_rev)

lemma rstrip_prefix: "\<exists>ws. s = rstrip s @ ws"
proof -
  have "rev (takeWhile isspace (rev s) @ dropWhile isspace (rev s)) = s"
    by (simp only: takeWhile_dropWhile_id rev_rev_ident)
  then have "s = rstrip s @ rev (takeWhile isspace (rev s))"
    by (simp only: rstrip_def rev_append)
  then show ?thesis by blast
qed

lemma rstrip_head: "rstrip s \<noteq> [] \<Longrightarrow> hd (rstrip s) = hd s"
  using rstrip_prefix [of s] by (metis hd_append2)

lemma strip_ends:
  "strip s \<noteq> [] \<Longrightarrow> \<not> isspace (hd (strip s)) \<and> \<not> isspace (last (strip s))"
proof -
  assume ne: "strip s \<noteq> []"
  then have l: "lstrip s \<noteq> []" by (auto simp: strip_def rstrip_def)
  have "hd (strip s) = hd (lstrip s)" using ne rstrip_head by (simp add: strip_def)
  then show ?thesis using ne l lstrip_head rstrip_last by (simp add: strip_def)
qed

lemma lstrip_fixed: "s \<noteq> [] \<Longrightarrow> \<not> isspace (hd s) \<Longrightarrow> lstrip s = s"
  by (cases s) (simp_all add: lstrip_def)

lemma strip_Nil: "strip [] = []"
  by (simp add: strip_def lstrip_def rstrip_def)

lemma strip_idem: "strip (strip s) = strip s"
proof (cases "strip s = []")
  case True
  then show ?thesis by (simp add: strip_Nil)
next
  case False
  then have "lstrip (strip s) = strip s" using strip_ends lstrip_fixed by blast
  then have "strip (strip s) = rstrip (strip s)" by (simp add: strip_def)
  also have "\<dots> = strip s" by (simp add: strip_def rstrip_idem)
  finally show ?thesis .
qed

lemma validate_drug_input_Some:
  "validate_drug_input (Some s) =
     (if strip s = [] then (False, Some msg_empty)
      else if list_all numeric_class (strip s) then (False, Some msg_numeric)
      else (True, None))"
  by (auto simp: validate_drug_input_def re_match_numeric_iff strip_Nil)

section \<open>Facts about the construction\<close>

lemma first_or_column_mem:
  "first_or_column (filter P cols) cols i = Inr c \<Longrightarrow> c \<in> set cols"
proof (cases "filter P cols")
  case Nil
  then show "first_or_column (filter P cols) cols i = Inr c \<Longrightarrow> c \<in> set cols"
    by (auto simp: first_or_column_def columns_at_def split: if_splits)
next
  case (Cons x xs)
  then have "x \<in> set (filter P cols)" by simp
  then have "x \<in> set cols" by simp
  then show "first_or_column (filter P cols) cols i = Inr c \<Longrightarrow> c \<in> set cols"
    using Cons by (simp add: first_or_column_def)
qed

lemma detect_columns_Inr:
  assumes "detect_columns cols = Inr (c1, c2, c3)"
  shows "first_or_column (drug_a_candidates cols) cols 1 = Inr c1"
    and "first_or_column (drug_b_candidates cols) cols 3 = Inr c2"
    and "first_or_column (level_candidates cols) cols 4 = Inr c3"
proof -
  obtain x1 where x1: "first_or_column (drug_a_candidates cols) cols 1 = Inr x1"
    using assms by (cases "first_or_column (drug_a_candidates cols) cols 1")
      (simp_all add: detect_columns_def)
  obtain x2 where x2: "first_or_column (drug_b_candidates cols) cols 3 = Inr x2"
    using assms x1 by (cases "first_or_column (drug_b_candidates cols) cols 3")
      (simp_all add: detect_columns_def)
  obtain x3 where x3: "first_or_column (level_candidates cols) cols 4 = Inr x3"
    using assms x1 x2 by (cases "first_or_column (level_candidates cols) cols 4")
      (simp_all add: detect_columns_def)
  have "x1 = c1 \<and> x2 = c2 \<and> x3 = c3"
    using assms x1 x2 x3 by (simp add: detect_columns_def)
  then show "first_or_column (drug_a_candidates cols) cols 1 = Inr c1"
    and "first_or_column (drug_b_candidates cols) cols 3 = Inr c2"
    and "first_or_column (level_candidates cols) cols 4 = Inr c3"
    using x1 x2 x3 by simp_all
qed

lemma detect_columns_mem:
  assumes "detect_columns cols = Inr (c1, c2, c3)"
  shows "c1 \<in> set cols" and "c2 \<in> set cols" and "c3 \<in> set cols"
proof -
  show "c1 \<in> set cols"
    using detect_columns_Inr(1) [OF assms] unfolding drug_a_candidates_def
    by (rule first_or_column_mem)
  show "c2 \<in> set cols"
    using detect_columns_Inr(2) [OF assms] unfolding drug_b_candidates_def
    by (rule first_or_column_mem)
  show "c3 \<in> set cols"
    using detect_columns_Inr(3) [OF assms] unfolding level_candidates_def
    by (rule first_or_column_mem)
qed

lemma str_accessor_Inr: "str_accessor s = Inr s' \<Longrightarrow> s' = s"
  by (auto simp: str_accessor_def split: if_splits)

lemma str_strip_lower: "str_strip (str_lower s) = map normalize_cell s"
  by (auto simp: str_strip_def str_lower_def normalize_cell_def normalize_def split: cell.splits)

lemma lower_strip_Inr:
  "lower_strip (Inr s) = Inr s' \<Longrightarrow> s' = map normalize_cell s"
  by (auto simp: lower_strip_def str_strip_lower split: sum.splits dest!: str_accessor_Inr)

lemma set_column_map:
  "col \<in> set (columns frame) \<Longrightarrow>
   set_column frame col (map f (map (\<lambda>r. r col) (rows frame))) =
     \<lparr>columns = columns frame, rows = map (\<lambda>r. r(col := f (r col))) (rows frame)\<rparr>"
proof -
  have "map (\<lambda>(r, v). r(col := v)) (zip rs (map f (map (\<lambda>r. r col) rs))) =
        map (\<lambda>r. r(col := f (r col))) rs" for rs :: "(string \<Rightarrow> cell) list"
    by (induction rs) simp_all
  then show "col \<in> set (columns frame) \<Longrightarrow> ?thesis"
    by (simp add: set_column_def)
qed

lemma normalize_columns_Inr:
  assumes "normalize_columns frame c1 c2 = Inr frame'"
    and "c1 \<in> set (columns frame)" and "c2 \<in> set (columns frame)"
  shows "columns frame' = columns frame"
    and "rows frame' = map (normalize_row c1 c2) (rows frame)"
proof -
  from assms(1) obtain s1 where s1: "lower_strip (get_column frame c1) = Inr s1"
    by (auto simp: normalize_columns_def split: sum.splits)
  have g1: "get_column frame c1 = Inr (map (\<lambda>r. r c1) (rows frame))"
    using assms(2) by (simp add: get_column_def)
  have s1': "s1 = map normalize_cell (map (\<lambda>r. r c1) (rows frame))"
    using s1 lower_strip_Inr unfolding g1 by blast
  define frame1 where "frame1 = set_column frame c1 s1"
  have f1: "frame1 = \<lparr>columns = columns frame,
      rows = map (\<lambda>r. r(c1 := normalize_cell (r c1))) (rows frame)\<rparr>"
    unfolding frame1_def s1' using assms(2) by (rule set_column_map)
  from assms(1) s1 obtain s2 where s2: "lower_strip (get_column frame1 c2) = Inr s2"
    and fr: "frame' = set_column frame1 c2 s2"
    by (auto simp: normalize_columns_def frame1_def Let_def split: sum.splits)
  have c2: "c2 \<in> set (columns frame1)" using assms(3) f1 by simp
  have g2: "get_column frame1 c2 = Inr (map (\<lambda>r. r c2) (rows frame1))"
    using c2 by (simp add: get_column_def)
  have s2': "s2 = map normalize_cell (map (\<lambda>r. r c2) (rows frame1))"
    using s2 lower_strip_Inr unfolding g2 by blast
  have f2: "frame' = \<lparr>columns = columns frame1,
      rows = map (\<lambda>r. r(c2 := normalize_cell (r c2))) (rows frame1)\<rparr>"
    unfolding fr s2' using c2 by (rule set_column_map)
  show "columns frame' = columns frame" using f1 f2 by simp
  show "rows frame' = map (normalize_row c1 c2) (rows frame)"
    using f1 f2 by (simp add: normalize_row_def Let_def)
qed

lemma init_Inr:
  assumes "init read_csv path = Inr self"
  obtains frame where "read_csv path = Inr frame"
    and "detect_columns (columns frame) = Inr (drug1_col self, drug2_col self, level_col self)"
    and "columns (df self) = columns frame"
    and "rows (df self) = map (normalize_row (drug1_col self) (drug2_col self)) (rows frame)"
proof -
  from assms have t: "try_load read_csv path = Inr self"
    by (auto simp: init_def load_data_def split: sum.splits exn.splits)
  then obtain frame c1 c2 c3 frame' where f: "read_csv path = Inr frame"
    and d: "detect_columns (columns frame) = Inr (c1, c2, c3)"
    and n: "normalize_columns frame c1 c2 = Inr frame'"
    and s: "self = \<lparr>df = frame', filepath = path, drug1_col = c1, drug2_col = c2, level_col = c3\<rparr>"
    by (auto simp: try_load_def split: sum.splits)
  have "columns frame' = columns frame" "rows frame' = map (normalize_row c1 c2) (rows frame)"
    using normalize_columns_Inr [OF n] detect_columns_mem [OF d] by auto
  then show thesis using that [OF f] d s by simp
qed

lemma init_has_roles: "init read_csv path = Inr self \<Longrightarrow> has_roles self"
  by (erule init_Inr) (auto simp: has_roles_def dest: detect_columns_mem)

section \<open>Facts about the queries\<close>

lemma series_eq_get_column:
  "c \<in> set (columns frame) \<Longrightarrow>
   series_eq (get_column frame c) d = Inr (map (\<lambda>r. r c = Str d) (rows frame))"
  by (simp add: series_eq_def get_column_def)

lemma zip_map_same: "zip (map p rs) (map q rs) = map (\<lambda>r. (p r, q r)) rs"
  by (induction rs) simp_all

lemma mask_and_map:
  "mask_and (Inr (map p rs)) (Inr (map q rs)) = Inr (map (\<lambda>r. p r \<and> q r) rs)"
  by (simp add: mask_and_def zip_map_same)

lemma mask_or_map:
  "mask_or (Inr (map p rs)) (Inr (map q rs)) = Inr (map (\<lambda>r. p r \<or> q r) rs)"
  by (simp add: mask_or_def zip_map_same)

lemma filter_by_mask: "map fst (filter snd (zip rs (map p rs))) = filter p rs"
  by (induction rs) simp_all

lemma getitem_mask_map:
  "getitem_mask frame (Inr (map p (rows frame))) = Inr (frame\<lparr>rows := filter p (rows frame)\<rparr>)"
  by (simp add: getitem_mask_def filter_by_mask)

lemma pair_mask:
  assumes "has_roles self"
  shows "getitem_mask (df self)
           (mask_or
              (mask_and (series_eq (get_column (df self) (drug1_col self)) d1)
                        (series_eq (get_column (df self) (drug2_col self)) d2))
              (mask_and (series_eq (get_column (df self) (drug1_col self)) d2)
                        (series_eq (get_column (df self) (drug2_col self)) d1)))
         = Inr ((df self)\<lparr>rows := filter (pair_match self d1 d2) (rows (df self))\<rparr>)"
proof -
  have c: "drug1_col self \<in> set (columns (df self))" "drug2_col self \<in> set (columns (df self))"
    using assms by (simp_all add: has_roles_def)
  have p: "pair_match self d1 d2 =
      (\<lambda>r. (r (drug1_col self) = Str d1 \<and> r (drug2_col self) = Str d2) \<or>
           (r (drug1_col self) = Str d2 \<and> r (drug2_col self) = Str d1))"
    by (rule ext) (simp add: pair_match_def)
  show ?thesis
    unfolding series_eq_get_column [OF c(1)] series_eq_get_column [OF c(2)]
      mask_and_map mask_or_map getitem_mask_map p ..
qed

lemma drug_mask:
  assumes "has_roles self"
  shows "getitem_mask (df self)
           (mask_or (series_eq (get_column (df self) (drug1_col self)) d)
                    (series_eq (get_column (df self) (drug2_col self)) d))
         = Inr ((df self)\<lparr>rows := filter (drug_match self d) (rows (df self))\<rparr>)"
proof -
  have c: "drug1_col self \<in> set (columns (df self))" "drug2_col self \<in> set (columns (df self))"
    using assms by (simp_all add: has_roles_def)
  have p: "drug_match self d = (\<lambda>r. r (drug1_col self) = Str d \<or> r (drug2_col self) = Str d)"
    by (rule ext) (simp add: drug_match_def)
  show ?thesis
    unfolding series_eq_get_column [OF c(1)] series_eq_get_column [OF c(2)]
      mask_or_map getitem_mask_map p ..
qed

lemma select_records:
  assumes "has_roles self"
  shows "getitem_cols ((df self)\<lparr>rows := rs\<rparr>) [drug1_col self, drug2_col self, level_col self]
         = Inr \<lparr>columns = [drug1_col self, drug2_col self, level_col self], rows = rs\<rparr>"
  using assms by (simp add: getitem_cols_def has_roles_def)

lemma to_dict_records_selected:
  "to_dict_records \<lparr>columns = [drug1_col self, drug2_col self, level_col self], rows = rs\<rparr>
   = map (record_of self) rs"
  by (simp add: to_dict_records_def record_of_def)

lemma has_roles_columns: "has_roles self \<Longrightarrow> columns (df self) \<noteq> []"
  by (auto simp: has_roles_def)

lemma valid_msg: "\<not> valid s \<Longrightarrow> \<exists>m. validate_drug_input (Some s) = (False, Some m)"
  by (auto simp: valid_def validate_drug_input_Some split: if_splits)

lemma check_interaction_invalid1:
  "\<not> valid drug1 \<Longrightarrow>
   check_interaction self drug1 drug2 =
     (Inr \<lparr>status = ''invalid_input'',
           message = ''Drug 1 - '' @ py_str (snd (validate_drug_input (Some drug1))),
           data = None\<rparr>, self)"
  by (simp add: check_interaction_def valid_def split_beta)

lemma check_interaction_invalid2:
  "valid drug1 \<Longrightarrow> \<not> valid drug2 \<Longrightarrow>
   check_interaction self drug1 drug2 =
     (Inr \<lparr>status = ''invalid_input'',
           message = ''Drug 2 - '' @ py_str (snd (validate_drug_input (Some drug2))),
           data = None\<rparr>, self)"
  by (simp add: check_interaction_def valid_def split_beta)

lemma check_interaction_same:
  "valid drug1 \<Longrightarrow> valid drug2 \<Longrightarrow> normalize drug1 = normalize drug2 \<Longrightarrow>
   check_interaction self drug1 drug2 = (Inr same_drug_error, self)"
  by (simp add: check_interaction_def valid_def split_beta normalize_def same_drug_error_def)

lemma check_interaction_search:
  assumes "has_roles self" and "valid drug1" and "valid drug2"
    and "normalize drug1 \<noteq> normalize drug2"
  shows "check_interaction self drug1 drug2 =
     (let ms = filter (pair_match self (normalize drug1) (normalize drug2)) (rows (df self))
      in if ms \<noteq> [] then
           (Inr \<lparr>status = ''found'',
                 message = ''Interaction found between '' @ drug1 @ '' and '' @ drug2,
                 data = Some (map (record_of self) ms)\<rparr>, self)
         else
           (Inr \<lparr>status = ''not_found'',
                 message = ''No significant interaction found'',
                 data = None\<rparr>, self))"
proof -
  have v: "fst (validate_drug_input (Some drug1))" "fst (validate_drug_input (Some drug2))"
    using assms(2,3) by (simp_all add: valid_def)
  have n: "strip (lower drug1) \<noteq> strip (lower drug2)"
    using assms(4) by (simp add: normalize_def)
  have cols: "columns (df self) \<noteq> []" using assms(1) by (rule has_roles_columns)
  show ?thesis
    unfolding check_interaction_def Let_def split_beta
    using v n cols
    by (simp add: pair_mask [OF assms(1)] select_records [OF assms(1)]
        to_dict_records_selected df_empty_def normalize_def)
qed

lemma get_all_invalid:
  "\<not> valid drug_name \<Longrightarrow>
   get_all_interactions_for_drug self drug_name =
     (Inr \<lparr>status = ''invalid_input'',
           message = py_str (snd (validate_drug_input (Some drug_name))),
           data = None\<rparr>, self)"
  by (simp add: get_all_interactions_for_drug_def valid_def split_beta)

lemma get_all_search:
  assumes "has_roles self" and "valid drug_name"
  shows "get_all_interactions_for_drug self drug_name =
     (let ms = filter (drug_match self (normalize drug_name)) (rows (df self))
      in if ms \<noteq> [] then
           (Inr \<lparr>status = ''found'',
                 message = ''Found '' @ str_nat (length ms)
                           @ '' interaction(s) for '' @ drug_name,
                 data = Some (map (record_of self) ms)\<rparr>, self)
         else
           (Inr \<lparr>status = ''not_found'',
                 message = ''No interactions found for '' @ drug_name,
                 data = None\<rparr>, self))"
proof -
  have v: "fst (validate_drug_input (Some drug_name))"
    using assms(2) by (simp add: valid_def)
  have cols: "columns (df self) \<noteq> []" using assms(1) by (rule has_roles_columns)
  show ?thesis
    unfolding get_all_interactions_for_drug_def Let_def split_beta
    using v cols
    by (simp add: drug_mask [OF assms(1)] select_records [OF assms(1)]
        to_dict_records_selected df_empty_def normalize_def)
qed

lemma pair_match_commute: "pair_match self d1 d2 = pair_match self d2 d1"
  by (rule ext) (auto simp: pair_match_def)

lemma check_interaction_not_same:
  assumes "valid a" and "valid b" and "normalize a \<noteq> normalize b"
  shows "fst (check_interaction self a b) \<noteq> Inr same_drug_error"
proof -
  have v: "fst (validate_drug_input (Some a))" "fst (validate_drug_input (Some b))"
    using assms(1,2) by (simp_all add: valid_def)
  have n: "strip (lower a) \<noteq> strip (lower b)" using assms(3) by (simp add: normalize_def)
  show ?thesis
    unfolding check_interaction_def Let_def split_beta
    using v n by (simp add: same_drug_error_def split: sum.splits)
qed

section \<open>The example table is loaded\<close>

lemma example_loaded: "init example_read_csv ''drug_interaction.csv'' = Inr example_checker"
proof -
  have "\<not> isl (init example_read_csv ''drug_interaction.csv'')" by code_simp
  then show ?thesis by (simp add: example_checker_def)
qed

section \<open>Input validation: claim C2\<close>

text \<open>
  C2. \<open>_validate_drug_input\<close> rejects a name as empty (message \<open>msg_empty\<close>) when it is
  absent or its trimmed form is empty, rejects it as purely numeric (message
  \<open>msg_numeric\<close>) when its trimmed form is not empty and consists only of digits, dots,
  commas and whitespace, and accepts it otherwise. The empty string, three spaces,
  \<open>123\<close> and \<open>1, 2.5\<close> are rejected; \<open>Aspirin\<close>, \<open>5-FU\<close> and \<open>Drug2\<close> are accepted.
\<close>

theorem validate_drug_input_spec:
  "validate_drug_input None = (False, Some msg_empty) \<and>
   validate_drug_input (Some s) =
     (if strip s = [] then (False, Some msg_empty)
      else if (\<forall>c \<in> set (strip s).
                 isdecimal c \<or> c = CHR ''.'' \<or> c = CHR '','' \<or> isspace c)
           then (False, Some msg_numeric)
      else (True, None)) \<and>
   validate_drug_input (Some '''') = (False, Some msg_empty) \<and>
   validate_drug_input (Some ''   '') = (False, Some msg_empty) \<and>
   validate_drug_input (Some ''123'') = (False, Some msg_numeric) \<and>
   validate_drug_input (Some ''1, 2.5'') = (False, Some msg_numeric) \<and>
   validate_drug_input (Some ''Aspirin'') = (True, None) \<and>
   validate_drug_input (Some ''5-FU'') = (True, None) \<and>
   validate_drug_input (Some ''Drug2'') = (True, None)"
proof -
  have absent: "validate_drug_input None = (False, Some msg_empty)"
    by (simp add: validate_drug_input_def)
  have general: "validate_drug_input (Some s) =
     (if strip s = [] then (False, Some msg_empty)
      else if (\<forall>c \<in> set (strip s).
                 isdecimal c \<or> c = CHR ''.'' \<or> c = CHR '','' \<or> isspace c)
           then (False, Some msg_numeric)
      else (True, None))"
    by (simp add: validate_drug_input_Some list_all_iff numeric_class_def)
  have e1: "validate_drug_input (Some '''') = (False, Some msg_empty)" by code_simp
  have e2: "validate_drug_input (Some ''   '') = (False, Some msg_empty)" by code_simp
  have e3: "validate_drug_input (Some ''123'') = (False, Some msg_numeric)" by code_simp
  have e4: "validate_drug_input (Some ''1, 2.5'') = (False, Some msg_numeric)" by code_simp
  have e5: "validate_drug_input (Some ''Aspirin'') = (True, None)" by code_simp
  have e6: "validate_drug_input (Some ''5-FU'') = (True, None)" by code_simp
  have e7: "validate_drug_input (Some ''Drug2'') = (True, None)" by code_simp
  from absent general e1 e2 e3 e4 e5 e6 e7 show ?thesis by blast
qed

text \<open>The three outcomes, on inputs with whitespace around the name.\<close>

theorem validate_drug_input_spec_witness:
  "validate_drug_input (Some '' 1.5, 2 '') = (False, Some msg_numeric) \<and>
   validate_drug_input (Some ''  '') = (False, Some msg_empty) \<and>
   validate_drug_input (Some '' 5-fu'') = (True, None)"
proof -
  have s1: "strip '' 1.5, 2 '' = ''1.5, 2''" by code_simp
  have s2: "strip ''  '' = []" by code_simp
  have s3: "strip '' 5-fu'' = ''5-fu''" by code_simp
  have c1: "\<forall>c \<in> set ''1.5, 2''. isdecimal c \<or> c = CHR ''.'' \<or> c = CHR '','' \<or> isspace c"
    by (simp add: isdecimal_def isspace_def)
  have c3: "\<not> (\<forall>c \<in> set ''5-fu''. isdecimal c \<or> c = CHR ''.'' \<or> c = CHR '','' \<or> isspace c)"
    by (simp add: isdecimal_def isspace_def)
  show ?thesis
    using validate_drug_input_spec [of "'' 1.5, 2 ''"] validate_drug_input_spec [of "''  ''"]
      validate_drug_input_spec [of "'' 5-fu''"] c1 c3
    unfolding s1 s2 s3 by simp
qed

section \<open>The pairwise check: claims C1 and C3\<close>

text \<open>
  C1. On a loaded table, for two valid names whose normalized forms \<open>d1\<close> and \<open>d2\<close>
  differ, \<open>check_interaction\<close> returns the status \<open>found\<close> exactly when some row has
  (drugA = d1 and drugB = d2) or (drugA = d2 and drugB = d1); the data are then the
  records of the matching rows in the order of the table; when no row matches, the
  status is \<open>not_found\<close> and there are no data. The names \<open>d1\<close>, \<open>d2\<close> compared with the
  table are the normalized inputs, as in step 3 of the specification.
\<close>

theorem check_interaction_found_iff:
  assumes "init read_csv path = Inr self"
    and "valid drug1" and "valid drug2"
    and "normalize drug1 \<noteq> normalize drug2"
  shows "\<exists>res. fst (check_interaction self drug1 drug2) = Inr res \<and>
     (status res = ''found'' \<longleftrightarrow>
        (\<exists>r \<in> set (rows (df self)). pair_match self (normalize drug1) (normalize drug2) r)) \<and>
     (status res = ''found'' \<longrightarrow>
        data res = Some (map (record_of self)
          (filter (pair_match self (normalize drug1) (normalize drug2)) (rows (df self))))) \<and>
     (status res \<noteq> ''found'' \<longrightarrow> status res = ''not_found'' \<and> data res = None)"
proof -
  have roles: "has_roles self" using assms(1) by (rule init_has_roles)
  let ?ms = "filter (pair_match self (normalize drug1) (normalize drug2)) (rows (df self))"
  have ne: "?ms \<noteq> [] \<longleftrightarrow>
      (\<exists>r \<in> set (rows (df self)). pair_match self (normalize drug1) (normalize drug2) r)"
    by (simp add: filter_empty_conv)
  show ?thesis
  proof (cases "?ms = []")
    case True
    then have "fst (check_interaction self drug1 drug2) =
        Inr \<lparr>status = ''not_found'', message = ''No significant interaction found'',
             data = None\<rparr>"
      using check_interaction_search [OF roles assms(2,3,4)] by (simp add: Let_def)
    then show ?thesis using True ne by simp
  next
    case False
    then have "fst (check_interaction self drug1 drug2) =
        Inr \<lparr>status = ''found'',
             message = ''Interaction found between '' @ drug1 @ '' and '' @ drug2,
             data = Some (map (record_of self) ?ms)\<rparr>"
      using check_interaction_search [OF roles assms(2,3,4)] by (simp add: Let_def)
    then show ?thesis using False ne by simp
  qed
qed

text \<open>The example of the specification: a query in the other order and in other case.\<close>

theorem check_interaction_found_iff_witness:
  "init example_read_csv ''drug_interaction.csv'' = Inr example_checker \<and>
   valid ''warfarin'' \<and> valid ''ASPIRIN '' \<and>
   normalize ''warfarin'' \<noteq> normalize ''ASPIRIN '' \<and>
   (\<exists>res. fst (check_interaction example_checker ''warfarin'' ''ASPIRIN '') = Inr res \<and>
      status res = ''found'' \<and>
      data res = Some [[(''Drug_A'', Str ''aspirin''), (''Drug_B'', Str ''warfarin''),
                        (''Level'', Str ''Major'')]])"
proof -
  have v1: "valid ''warfarin''" by code_simp
  have v2: "valid ''ASPIRIN ''" by code_simp
  have n: "normalize ''warfarin'' \<noteq> normalize ''ASPIRIN ''" by code_simp
  have ex: "\<exists>r \<in> set (rows (df example_checker)).
      pair_match example_checker (normalize ''warfarin'') (normalize ''ASPIRIN '') r"
    by code_simp
  have recs: "map (record_of example_checker)
      (filter (pair_match example_checker (normalize ''warfarin'') (normalize ''ASPIRIN ''))
         (rows (df example_checker))) =
      [[(''Drug_A'', Str ''aspirin''), (''Drug_B'', Str ''warfarin''),
        (''Level'', Str ''Major'')]]"
    by code_simp
  from check_interaction_found_iff [OF example_loaded v1 v2 n]
  obtain res where r: "fst (check_interaction example_checker ''warfarin'' ''ASPIRIN '') = Inr res"
    and f: "status res = ''found''"
    and d: "data res = Some (map (record_of example_checker)
      (filter (pair_match example_checker (normalize ''warfarin'') (normalize ''ASPIRIN ''))
         (rows (df example_checker))))"
    using ex by blast
  show ?thesis using example_loaded v1 v2 n r f d recs by auto
qed

text \<open>
  C3. For two valid names, \<open>check_interaction\<close> returns the same-drug error exactly when
  the names are equal after normalization; in particular it does for a valid name
  checked against itself. No property of the table is used.
\<close>

theorem same_drug_error_iff:
  "(valid a \<and> valid b \<longrightarrow>
      (fst (check_interaction self a b) = Inr same_drug_error
         \<longleftrightarrow> normalize a = normalize b)) \<and>
   (valid x \<longrightarrow> fst (check_interaction self x x) = Inr same_drug_error)"
proof -
  have "fst (check_interaction self a b) = Inr same_drug_error \<longleftrightarrow> normalize a = normalize b"
    if "valid a" "valid b"
    using that check_interaction_same [of a b self] check_interaction_not_same [of a b self]
    by auto
  moreover have "fst (check_interaction self x x) = Inr same_drug_error" if "valid x"
    using that check_interaction_same [of x x self] by simp
  ultimately show ?thesis by blast
qed

text \<open>Equal up to case and spaces, different, and identical names.\<close>

theorem same_drug_error_iff_witness:
  "valid ''Aspirin'' \<and> valid '' aspirin '' \<and> valid ''Warfarin'' \<and>
   normalize ''Aspirin'' = normalize '' aspirin '' \<and>
   normalize ''Aspirin'' \<noteq> normalize ''Warfarin'' \<and>
   fst (check_interaction example_checker ''Aspirin'' '' aspirin '') = Inr same_drug_error \<and>
   fst (check_interaction example_checker ''Aspirin'' ''Warfarin'') \<noteq> Inr same_drug_error \<and>
   fst (check_interaction example_checker ''Aspirin'' ''Aspirin'') = Inr same_drug_error"
proof -
  have v1: "valid ''Aspirin''" by code_simp
  have v2: "valid '' aspirin ''" by code_simp
  have v3: "valid ''Warfarin''" by code_simp
  have e: "normalize ''Aspirin'' = normalize '' aspirin ''" by code_simp
  have n: "normalize ''Aspirin'' \<noteq> normalize ''Warfarin''" by code_simp
  show ?thesis
    using same_drug_error_iff [of "''Aspirin''" "'' aspirin ''" example_checker "''Aspirin''"]
      same_drug_error_iff [of "''Aspirin''" "''Warfarin''" example_checker "''Aspirin''"]
      v1 v2 v3 e n
    by blast
qed

section \<open>The listing of one drug: claim C4\<close>

text \<open>
  C4. On a loaded table and for a valid name, \<open>get_all_interactions_for_drug\<close> returns
  \<open>found\<close> with the records of exactly the rows whose drug A or drug B cell equals the
  normalized name, in the order of the table, or \<open>not_found\<close> when there is none. For an
  invalid name it returns \<open>invalid_input\<close> whose message is the reason of the validation
  itself, with no prefix.
\<close>

theorem get_all_interactions_spec:
  assumes "init read_csv path = Inr self"
  shows "(valid drug_name \<longrightarrow>
      fst (get_all_interactions_for_drug self drug_name) =
        Inr (let ms = filter (drug_match self (normalize drug_name)) (rows (df self))
             in if ms \<noteq> [] then
                  \<lparr>status = ''found'',
                   message = ''Found '' @ str_nat (length ms)
                             @ '' interaction(s) for '' @ drug_name,
                   data = Some (map (record_of self) ms)\<rparr>
                else
                  \<lparr>status = ''not_found'',
                   message = ''No interactions found for '' @ drug_name,
                   data = None\<rparr>)) \<and>
     (\<not> valid drug_name \<longrightarrow>
        (\<exists>reason. validate_drug_input (Some drug_name) = (False, Some reason) \<and>
           fst (get_all_interactions_for_drug self drug_name) =
             Inr \<lparr>status = ''invalid_input'', message = reason, data = None\<rparr>))"
proof -
  have roles: "has_roles self" using assms by (rule init_has_roles)
  have a: "fst (get_all_interactions_for_drug self drug_name) =
        Inr (let ms = filter (drug_match self (normalize drug_name)) (rows (df self))
             in if ms \<noteq> [] then
                  \<lparr>status = ''found'',
                   message = ''Found '' @ str_nat (length ms)
                             @ '' interaction(s) for '' @ drug_name,
                   data = Some (map (record_of self) ms)\<rparr>
                else
                  \<lparr>status = ''not_found'',
                   message = ''No interactions found for '' @ drug_name,
                   data = None\<rparr>)" if "valid drug_name"
    using get_all_search [OF roles that] by (simp add: Let_def)
  have b: "\<exists>reason. validate_drug_input (Some drug_name) = (False, Some reason) \<and>
           fst (get_all_interactions_for_drug self drug_name) =
             Inr \<lparr>status = ''invalid_input'', message = reason, data = None\<rparr>"
    if "\<not> valid drug_name"
  proof -
    from valid_msg [OF that] obtain m where m: "validate_drug_input (Some drug_name) = (False, Some m)"
      by blast
    then show ?thesis using get_all_invalid [OF that, of self] by (simp add: py_str_def)
  qed
  from a b show ?thesis by blast
qed

text \<open>A listing of two records, and an invalid name.\<close>

theorem get_all_interactions_spec_witness:
  "init example_read_csv ''drug_interaction.csv'' = Inr example_checker \<and>
   valid '' Aspirin'' \<and> \<not> valid ''12.5'' \<and>
   fst (get_all_interactions_for_drug example_checker '' Aspirin'') =
     Inr \<lparr>status = ''found'',
          message = ''Found 2 interaction(s) for  Aspirin'',
          data = Some [[(''Drug_A'', Str ''aspirin''), (''Drug_B'', Str ''warfarin''),
                        (''Level'', Str ''Major'')],
                       [(''Drug_A'', Str ''ibuprofen''), (''Drug_B'', Str ''aspirin''),
                        (''Level'', Str ''Minor'')]]\<rparr> \<and>
   fst (get_all_interactions_for_drug example_checker ''12.5'') =
     Inr \<lparr>status = ''invalid_input'', message = msg_numeric, data = None\<rparr>"
proof -
  have v1: "valid '' Aspirin''" by code_simp
  have v2: "\<not> valid ''12.5''" by code_simp
  have m: "validate_drug_input (Some ''12.5'') = (False, Some msg_numeric)" by code_simp
  have recs: "map (record_of example_checker)
      (filter (drug_match example_checker (normalize '' Aspirin'')) (rows (df example_checker))) =
      [[(''Drug_A'', Str ''aspirin''), (''Drug_B'', Str ''warfarin''), (''Level'', Str ''Major'')],
       [(''Drug_A'', Str ''ibuprofen''), (''Drug_B'', Str ''aspirin''), (''Level'', Str ''Minor'')]]"
    by code_simp
  have len: "length (filter (drug_match example_checker (normalize '' Aspirin''))
      (rows (df example_checker))) = 2"
    using arg_cong [OF recs, of length] by simp
  have ne: "filter (drug_match example_checker (normalize '' Aspirin''))
      (rows (df example_checker)) \<noteq> []"
    using len by auto
  have s2: "str_nat 2 = ''2''" by code_simp
  have found: "fst (get_all_interactions_for_drug example_checker '' Aspirin'') =
     Inr \<lparr>status = ''found'',
          message = ''Found 2 interaction(s) for  Aspirin'',
          data = Some [[(''Drug_A'', Str ''aspirin''), (''Drug_B'', Str ''warfarin''),
                        (''Level'', Str ''Major'')],
                       [(''Drug_A'', Str ''ibuprofen''), (''Drug_B'', Str ''aspirin''),
                        (''Level'', Str ''Minor'')]]\<rparr>"
    using get_all_interactions_spec [OF example_loaded, of "'' Aspirin''"] v1 ne
    by (simp add: Let_def recs len s2 del: str_nat.simps)
  have invalid: "fst (get_all_interactions_for_drug example_checker ''12.5'') =
     Inr \<lparr>status = ''invalid_input'', message = msg_numeric, data = None\<rparr>"
    using get_all_interactions_spec [OF example_loaded, of "''12.5''"] v2 m by auto
  show ?thesis using example_loaded v1 v2 found invalid by blast
qed

section \<open>Symmetry, totality and frame of the queries: claims C6, C8 and C9\<close>

text \<open>
  C6. On a loaded table and for all strings \<open>a\<close> and \<open>b\<close>, \<open>check_interaction\<close> on
  \<open>(a, b)\<close> and on \<open>(b, a)\<close> return results with the same status and the same data.
\<close>

theorem check_interaction_symmetric:
  assumes "init read_csv path = Inr self"
  shows "\<exists>r1 r2. fst (check_interaction self a b) = Inr r1 \<and>
           fst (check_interaction self b a) = Inr r2 \<and>
           status r1 = status r2 \<and> data r1 = data r2"
proof -
  have roles: "has_roles self" using assms by (rule init_has_roles)
  consider (inv_a) "\<not> valid a" | (inv_b) "valid a" "\<not> valid b"
    | (same) "valid a" "valid b" "normalize a = normalize b"
    | (search) "valid a" "valid b" "normalize a \<noteq> normalize b"
    by blast
  then show ?thesis
  proof cases
    case inv_a
    then show ?thesis
      using check_interaction_invalid1 [of a self b]
        check_interaction_invalid1 [of b self a] check_interaction_invalid2 [of b a self]
      by (cases "valid b") simp_all
  next
    case inv_b
    then show ?thesis
      using check_interaction_invalid2 [of a b self] check_interaction_invalid1 [of b self a]
      by simp
  next
    case same
    then show ?thesis
      using check_interaction_same [of a b self] check_interaction_same [of b a self]
      by simp
  next
    case search
    have ab: "check_interaction self a b =
      (let ms = filter (pair_match self (normalize a) (normalize b)) (rows (df self))
       in if ms \<noteq> [] then
            (Inr \<lparr>status = ''found'',
                  message = ''Interaction found between '' @ a @ '' and '' @ b,
                  data = Some (map (record_of self) ms)\<rparr>, self)
          else
            (Inr \<lparr>status = ''not_found'',
                  message = ''No significant interaction found'',
                  data = None\<rparr>, self))"
      using search by (intro check_interaction_search [OF roles]) simp_all
    have ba: "check_interaction self b a =
      (let ms = filter (pair_match self (normalize b) (normalize a)) (rows (df self))
       in if ms \<noteq> [] then
            (Inr \<lparr>status = ''found'',
                  message = ''Interaction found between '' @ b @ '' and '' @ a,
                  data = Some (map (record_of self) ms)\<rparr>, self)
          else
            (Inr \<lparr>status = ''not_found'',
                  message = ''No significant interaction found'',
                  data = None\<rparr>, self))"
      using search by (intro check_interaction_search [OF roles]) simp_all
    show ?thesis
      unfolding ab ba pair_match_commute [of self "normalize b" "normalize a"] Let_def
      by simp
  qed
qed

text \<open>A valid and an invalid name, and a matching pair, each in both orders.\<close>

theorem check_interaction_symmetric_witness:
  "init example_read_csv ''drug_interaction.csv'' = Inr example_checker \<and>
   (\<exists>r1 r2. fst (check_interaction example_checker ''Aspirin'' ''123'') = Inr r1 \<and>
      fst (check_interaction example_checker ''123'' ''Aspirin'') = Inr r2 \<and>
      status r1 = status r2 \<and> data r1 = data r2) \<and>
   (\<exists>r1 r2. fst (check_interaction example_checker ''warfarin'' ''ASPIRIN '') = Inr r1 \<and>
      fst (check_interaction example_checker ''ASPIRIN '' ''warfarin'') = Inr r2 \<and>
      status r1 = status r2 \<and> data r1 = data r2)"
  using check_interaction_symmetric [OF example_loaded, of "''Aspirin''" "''123''"]
    check_interaction_symmetric [OF example_loaded, of "''warfarin''" "''ASPIRIN ''"]
    example_loaded
  by blast

text \<open>
  C8. On a loaded table and for all strings, neither query raises: each returns a dict
  that is an invalid-input result without data, the same-drug error, a \<open>found\<close> result
  with at least one record, or a \<open>not_found\<close> result without data.
\<close>

theorem queries_never_raise:
  assumes "init read_csv path = Inr self"
  shows "(\<exists>res. fst (check_interaction self a b) = Inr res \<and>
           (status res = ''invalid_input'' \<and> data res = None \<and> \<not> (valid a \<and> valid b) \<or>
            res = same_drug_error \<and> valid a \<and> valid b \<and> normalize a = normalize b \<or>
            status res = ''found'' \<and> (\<exists>recs. data res = Some recs \<and> recs \<noteq> []) \<or>
            status res = ''not_found'' \<and> data res = None)) \<and>
         (\<exists>res. fst (get_all_interactions_for_drug self x) = Inr res \<and>
           (status res = ''invalid_input'' \<and> data res = None \<and> \<not> valid x \<or>
            status res = ''found'' \<and> (\<exists>recs. data res = Some recs \<and> recs \<noteq> []) \<or>
            status res = ''not_found'' \<and> data res = None))"
proof -
  have roles: "has_roles self" using assms by (rule init_has_roles)
  have pair: "\<exists>res. fst (check_interaction self a b) = Inr res \<and>
           (status res = ''invalid_input'' \<and> data res = None \<and> \<not> (valid a \<and> valid b) \<or>
            res = same_drug_error \<and> valid a \<and> valid b \<and> normalize a = normalize b \<or>
            status res = ''found'' \<and> (\<exists>recs. data res = Some recs \<and> recs \<noteq> []) \<or>
            status res = ''not_found'' \<and> data res = None)"
  proof -
    consider (inv_a) "\<not> valid a" | (inv_b) "valid a" "\<not> valid b"
      | (same) "valid a" "valid b" "normalize a = normalize b"
      | (search) "valid a" "valid b" "normalize a \<noteq> normalize b"
      by blast
    then show ?thesis
    proof cases
      case inv_a
      then show ?thesis using check_interaction_invalid1 [of a self b] by simp
    next
      case inv_b
      then show ?thesis using check_interaction_invalid2 [of a b self] by simp
    next
      case same
      then show ?thesis using check_interaction_same [of a b self] by simp
    next
      case search
      show ?thesis
        using check_interaction_search [OF roles search]
        by (cases "filter (pair_match self (normalize a) (normalize b)) (rows (df self)) = []")
          (simp_all add: Let_def)
    qed
  qed
  have single: "\<exists>res. fst (get_all_interactions_for_drug self x) = Inr res \<and>
           (status res = ''invalid_input'' \<and> data res = None \<and> \<not> valid x \<or>
            status res = ''found'' \<and> (\<exists>recs. data res = Some recs \<and> recs \<noteq> []) \<or>
            status res = ''not_found'' \<and> data res = None)"
  proof (cases "valid x")
    case False
    then show ?thesis using get_all_invalid [of x self] by simp
  next
    case True
    show ?thesis
      using get_all_search [OF roles True]
      by (cases "filter (drug_match self (normalize x)) (rows (df self)) = []")
        (simp_all add: Let_def del: str_nat.simps)
  qed
  from pair single show ?thesis by blast
qed

text \<open>A blank second name and a drug the table does not have.\<close>

theorem queries_never_raise_witness:
  "init example_read_csv ''drug_interaction.csv'' = Inr example_checker \<and>
   \<not> isl (fst (check_interaction example_checker ''Aspirin'' '' '')) \<and>
   \<not> isl (fst (get_all_interactions_for_drug example_checker ''Paracetamol''))"
proof -
  from queries_never_raise [OF example_loaded, of "''Aspirin''" "'' ''" "''Paracetamol''"]
  obtain r1 r2 where "fst (check_interaction example_checker ''Aspirin'' '' '') = Inr r1"
    and "fst (get_all_interactions_for_drug example_checker ''Paracetamol'') = Inr r2"
    by blast
  then show ?thesis using example_loaded by simp
qed

text \<open>
  C9. A query leaves the checker object as it found it, whatever the object and the
  strings are and whether the call returns or raises: the table and the three column
  roles after the call are those before it.
\<close>

theorem queries_do_not_mutate:
  "snd (check_interaction self a b) = self \<and>
   snd (get_all_interactions_for_drug self x) = self"
proof
  show "snd (check_interaction self a b) = self"
    unfolding check_interaction_def Let_def split_beta
    by (simp split: sum.splits)
  show "snd (get_all_interactions_for_drug self x) = self"
    unfolding get_all_interactions_for_drug_def Let_def split_beta
    by (simp split: sum.splits)
qed

text \<open>The table and a column role of the example after a query.\<close>

theorem queries_do_not_mutate_witness:
  "df (snd (check_interaction example_checker ''Aspirin'' ''Warfarin'')) = df example_checker \<and>
   drug1_col (snd (check_interaction example_checker ''Aspirin'' ''Warfarin''))
     = drug1_col example_checker \<and>
   snd (get_all_interactions_for_drug example_checker ''Aspirin'') = example_checker"
  using queries_do_not_mutate [of example_checker "''Aspirin''" "''Warfarin''" "''Aspirin''"]
  by simp

section \<open>Column detection: claim C5\<close>

lemma contains_char: "contains [c] s \<longleftrightarrow> c \<in> set s"
  by (induction s) auto

lemma first_or_column_picks:
  "first_or_column (filter P cols) cols k = Inr c \<longleftrightarrow> picks P k cols c"
proof (cases "\<exists>h \<in> set cols. P h")
  case False
  then have f: "filter P cols = []" by (simp add: filter_empty_conv)
  have "first_or_column (filter P cols) cols k = Inr c \<longleftrightarrow> k < length cols \<and> c = cols ! k"
    unfolding f by (auto simp: first_or_column_def columns_at_def)
  also have "\<dots> \<longleftrightarrow> picks P k cols c"
    using False by (auto simp: picks_def)
  finally show ?thesis .
next
  case True
  then obtain x rest where f: "filter P cols = x # rest"
    by (cases "filter P cols") (auto simp: filter_empty_conv)
  then obtain us vs where d: "cols = us @ x # vs" and u: "\<forall>u \<in> set us. \<not> P u" and x: "P x"
    by (auto simp: filter_eq_Cons_iff)
  have first: "i = length us" if "i < length cols" "P (cols ! i)" "\<forall>j < i. \<not> P (cols ! j)" for i
  proof (rule ccontr)
    assume "i \<noteq> length us"
    then consider "i < length us" | "length us < i" by linarith
    then show False
    proof cases
      case 1
      then have "cols ! i \<in> set us" using d by (simp add: nth_append)
      then show False using u that(2) by blast
    next
      case 2
      then have "\<not> P (cols ! length us)" using that(3) by blast
      then show False using d x by simp
    qed
  qed
  have at: "cols ! length us = x" using d by simp
  have lt: "length us < length cols" using d by simp
  have below: "\<forall>j < length us. \<not> P (cols ! j)"
    using u d by (auto simp: nth_append)
  have "first_or_column (filter P cols) cols k = Inr c \<longleftrightarrow> c = x"
    unfolding f by (auto simp: first_or_column_def)
  also have "\<dots> \<longleftrightarrow> picks P k cols c"
  proof
    assume "c = x"
    then show "picks P k cols c"
      unfolding picks_def using True at lt below x by auto
  next
    assume "picks P k cols c"
    then obtain i where "i < length cols" "c = cols ! i" "P (cols ! i)" "\<forall>j < i. \<not> P (cols ! j)"
      unfolding picks_def using True by auto
    then show "c = x" using first at by blast
  qed
  finally show ?thesis .
qed

lemma detect_columns_iff:
  "detect_columns cols = Inr (c1, c2, c3) \<longleftrightarrow>
     first_or_column (drug_a_candidates cols) cols 1 = Inr c1 \<and>
     first_or_column (drug_b_candidates cols) cols 3 = Inr c2 \<and>
     first_or_column (level_candidates cols) cols 4 = Inr c3"
proof
  assume "detect_columns cols = Inr (c1, c2, c3)"
  then show "first_or_column (drug_a_candidates cols) cols 1 = Inr c1 \<and>
     first_or_column (drug_b_candidates cols) cols 3 = Inr c2 \<and>
     first_or_column (level_candidates cols) cols 4 = Inr c3"
    using detect_columns_Inr by blast
next
  assume "first_or_column (drug_a_candidates cols) cols 1 = Inr c1 \<and>
     first_or_column (drug_b_candidates cols) cols 3 = Inr c2 \<and>
     first_or_column (level_candidates cols) cols 4 = Inr c3"
  then show "detect_columns cols = Inr (c1, c2, c3)"
    by (simp add: detect_columns_def)
qed

lemma no_candidates:
  assumes "\<forall>h \<in> set cols. \<not> is_drug_a_header h \<and> \<not> is_drug_b_header h \<and> \<not> is_level_header h"
  shows "drug_a_candidates cols = []" and "drug_b_candidates cols = []"
    and "level_candidates cols = []"
  using assms
  by (simp_all add: drug_a_candidates_def drug_b_candidates_def level_candidates_def
      filter_empty_conv)

text \<open>
  C5, amended. As a function of the header list, the detection picks as drug A the first
  header whose lowercase form contains both \<open>drug\<close> and \<open>a\<close>, and the header at index
  1 when there is none; as drug B the first one containing both \<open>drug\<close> and \<open>b\<close>, and
  the header at index 3 otherwise; as level the first one containing \<open>level\<close> or
  \<open>severity\<close>, and the header at index 4 otherwise; it succeeds exactly when each role
  has such a header. The headers of the specification's example resolve to the indices
  1, 3 and 4. Headers of which none passes a test resolve to the indices 1, 3 and 4 when
  there are at least five of them, and to IndexError otherwise.
\<close>

theorem detect_columns_spec:
  "(detect_columns cols = Inr (c1, c2, c3) \<longleftrightarrow>
      picks is_drug_a_header 1 cols c1 \<and>
      picks is_drug_b_header 3 cols c2 \<and>
      picks is_level_header 4 cols c3) \<and>
   (let hs = [''id'', ''DrugA_name'', ''other'', ''DrugB_name'', ''Severity_Level'']
    in detect_columns hs = Inr (hs ! 1, hs ! 3, hs ! 4)) \<and>
   ((\<forall>h \<in> set cols. \<not> is_drug_a_header h \<and> \<not> is_drug_b_header h \<and> \<not> is_level_header h)
      \<longrightarrow> detect_columns cols =
            (if 5 \<le> length cols then Inr (cols ! 1, cols ! 3, cols ! 4)
             else Inl IndexError))"
proof -
  have general: "detect_columns cols = Inr (c1, c2, c3) \<longleftrightarrow>
      picks is_drug_a_header 1 cols c1 \<and>
      picks is_drug_b_header 3 cols c2 \<and>
      picks is_level_header 4 cols c3"
    unfolding detect_columns_iff drug_a_candidates_def drug_b_candidates_def
      level_candidates_def first_or_column_picks ..
  have example: "let hs = [''id'', ''DrugA_name'', ''other'', ''DrugB_name'', ''Severity_Level'']
    in detect_columns hs = Inr (hs ! 1, hs ! 3, hs ! 4)"
    by code_simp
  have fallback: "detect_columns cols =
            (if 5 \<le> length cols then Inr (cols ! 1, cols ! 3, cols ! 4)
             else Inl IndexError)"
    if "\<forall>h \<in> set cols. \<not> is_drug_a_header h \<and> \<not> is_drug_b_header h \<and> \<not> is_level_header h"
    using no_candidates [OF that]
    by (simp add: detect_columns_def first_or_column_def columns_at_def)
  from general example fallback show ?thesis by blast
qed

text \<open>Six headers that pass no test.\<close>

theorem detect_columns_spec_witness:
  "drug_a_candidates [''id'', ''first'', ''dose'', ''second'', ''grade'', ''note''] = [] \<and>
   drug_b_candidates [''id'', ''first'', ''dose'', ''second'', ''grade'', ''note''] = [] \<and>
   level_candidates [''id'', ''first'', ''dose'', ''second'', ''grade'', ''note''] = [] \<and>
   detect_columns [''id'', ''first'', ''dose'', ''second'', ''grade'', ''note'']
     = Inr (''first'', ''second'', ''grade'') \<and>
   picks is_drug_a_header 1 [''id'', ''first'', ''dose'', ''second'', ''grade'', ''note''] ''first''"
proof -
  let ?hs = "[''id'', ''first'', ''dose'', ''second'', ''grade'', ''note'']"
  have none: "\<forall>h \<in> set ?hs.
      \<not> is_drug_a_header h \<and> \<not> is_drug_b_header h \<and> \<not> is_level_header h"
    by code_simp
  have empty: "drug_a_candidates ?hs = []" "drug_b_candidates ?hs = []"
    "level_candidates ?hs = []"
    using none by (rule no_candidates)+
  have d: "detect_columns ?hs = Inr (''first'', ''second'', ''grade'')"
    using detect_columns_spec [of ?hs] none by simp
  have "picks is_drug_a_header 1 ?hs ''first''"
    using detect_columns_spec [of ?hs "''first''" "''second''" "''grade''"] d by blast
  then show ?thesis using empty d by blast
qed

text \<open>
  The claim as stated fails on a header list shorter than five: two headers that pass no
  test resolve to no indices, and the construction ends with the load error.
\<close>

theorem detect_columns_short_counterexample:
  "drug_a_candidates [''name'', ''dose''] = [] \<and>
   drug_b_candidates [''name'', ''dose''] = [] \<and>
   level_candidates [''name'', ''dose''] = [] \<and>
   detect_columns [''name'', ''dose''] = Inl IndexError \<and>
   init short_read_csv ''drug_interaction.csv'' = Inl (Error_loading_data IndexError)"
proof -
  have a: "drug_a_candidates [''name'', ''dose''] = []" by code_simp
  have b: "drug_b_candidates [''name'', ''dose''] = []" by code_simp
  have l: "level_candidates [''name'', ''dose''] = []" by code_simp
  have d: "detect_columns [''name'', ''dose''] = Inl IndexError" by code_simp
  have "init short_read_csv ''drug_interaction.csv'' = Inl (Error_loading_data IndexError)"
    by (simp add: init_def load_data_def try_load_def short_read_csv_def short_frame_def d)
  with a b l d show ?thesis by blast
qed

section \<open>Normalization at load time: claim C7\<close>

lemma normalize_idem: "normalize (normalize s) = normalize s"
proof -
  have "lower (strip (lower s)) = strip (lower s)"
    by (simp add: strip_lower [symmetric] lower_idem)
  then show ?thesis by (simp add: normalize_def strip_idem)
qed

lemma is_lowercase_normalize: "is_lowercase (normalize s)"
  using no_upper_lower [of "strip s"]
  by (simp add: normalize_def strip_lower is_lowercase_def list_all_iff)

lemma is_trimmed_normalize: "is_trimmed (normalize s)"
  using strip_ends [of "lower s"] by (auto simp: normalize_def is_trimmed_def)

lemma normalized_normalize_cell: "normalized_cell (normalize_cell c)"
  by (cases c) (simp_all add: normalized_cell_def normalize_cell_def
      is_lowercase_normalize is_trimmed_normalize)

lemma rstrip_fixed: "s \<noteq> [] \<Longrightarrow> \<not> isspace (last s) \<Longrightarrow> rstrip s = s"
proof -
  assume ne: "s \<noteq> []" and l: "\<not> isspace (last s)"
  then have "rev s \<noteq> []" "\<not> isspace (hd (rev s))" by (simp_all add: hd_rev)
  then have "dropWhile isspace (rev s) = rev s" by (cases "rev s") simp_all
  then show ?thesis by (simp add: rstrip_def)
qed

lemma normalize_fixed:
  assumes "is_lowercase s" and "is_trimmed s"
  shows "normalize s = s"
proof -
  have l: "lower s = s"
    using assms(1) by (simp add: lower_fixed_iff is_lowercase_def list_all_iff)
  have "strip s = s"
  proof (cases "s = []")
    case True
    then show ?thesis by (simp add: strip_Nil)
  next
    case False
    then have "\<not> isspace (hd s)" "\<not> isspace (last s)"
      using assms(2) by (simp_all add: is_trimmed_def)
    then show ?thesis using False by (simp add: strip_def lstrip_fixed rstrip_fixed)
  qed
  then show ?thesis using l by (simp add: normalize_def)
qed

lemma normalize_cell_fixed: "normalized_cell c \<Longrightarrow> normalize_cell c = c"
  by (cases c) (simp_all add: normalized_cell_def normalize_cell_def normalize_fixed)

lemma normalize_row_drug1: "normalized_cell (normalize_row c1 c2 r c1)"
  by (simp add: normalize_row_def Let_def normalized_normalize_cell)

lemma normalize_row_drug2: "normalized_cell (normalize_row c1 c2 r c2)"
  by (simp add: normalize_row_def Let_def normalized_normalize_cell)

lemma normalize_row_other:
  "c \<noteq> c1 \<Longrightarrow> c \<noteq> c2 \<Longrightarrow> normalize_row c1 c2 r c = r c"
  by (simp add: normalize_row_def Let_def)

lemma example_roles:
  "drug1_col example_checker = ''Drug_A''" "drug2_col example_checker = ''Drug_B''"
  "level_col example_checker = ''Level''"
  by code_simp+

text \<open>
  C7, amended. After construction, every drug A and drug B field that holds a string
  holds a lowercase, trimmed one; the level field is the one read from the file whenever
  the level column is neither the drug A nor the drug B column; and normalization is
  idempotent: normalizing a normalized name, or a field that is already lowercase and
  trimmed, changes nothing.
\<close>

theorem load_normalizes_drug_columns:
  assumes "init read_csv path = Inr self"
  shows "(\<forall>r \<in> set (rows (df self)).
            normalized_cell (r (drug1_col self)) \<and> normalized_cell (r (drug2_col self))) \<and>
         (\<exists>raw. read_csv path = Inr raw \<and>
            (level_col self \<noteq> drug1_col self \<and> level_col self \<noteq> drug2_col self \<longrightarrow>
               get_column (df self) (level_col self) = get_column raw (level_col self))) \<and>
         normalize (normalize s) = normalize s \<and>
         (normalized_cell c \<longrightarrow> normalize_cell c = c)"
proof -
  from assms obtain raw where raw: "read_csv path = Inr raw"
    and cols: "columns (df self) = columns raw"
    and rws: "rows (df self) = map (normalize_row (drug1_col self) (drug2_col self)) (rows raw)"
    by (rule init_Inr)
  have drugs: "\<forall>r \<in> set (rows (df self)).
      normalized_cell (r (drug1_col self)) \<and> normalized_cell (r (drug2_col self))"
  proof
    fix r
    assume "r \<in> set (rows (df self))"
    then obtain r0 where r: "r = normalize_row (drug1_col self) (drug2_col self) r0"
      unfolding rws by auto
    show "normalized_cell (r (drug1_col self)) \<and> normalized_cell (r (drug2_col self))"
      unfolding r using normalize_row_drug1 normalize_row_drug2 by blast
  qed
  have level: "get_column (df self) (level_col self) = get_column raw (level_col self)"
    if "level_col self \<noteq> drug1_col self \<and> level_col self \<noteq> drug2_col self"
    using that by (simp add: get_column_def cols rws normalize_row_other)
  from raw drugs level normalize_idem normalize_cell_fixed show ?thesis by blast
qed

text \<open>The example table: its level column is read back as it was in the file.\<close>

theorem load_normalizes_drug_columns_witness:
  "init example_read_csv ''drug_interaction.csv'' = Inr example_checker \<and>
   level_col example_checker \<noteq> drug1_col example_checker \<and>
   level_col example_checker \<noteq> drug2_col example_checker \<and>
   list_all (\<lambda>r. normalized_cell (r ''Drug_A'') \<and> normalized_cell (r ''Drug_B''))
     (rows (df example_checker)) \<and>
   get_column (df example_checker) ''Level'' = Inr [Str ''Major'', Str ''Minor''] \<and>
   normalize (normalize '' AsPirin '') = normalize '' AsPirin ''"
proof -
  have distinct: "level_col example_checker \<noteq> drug1_col example_checker"
    "level_col example_checker \<noteq> drug2_col example_checker"
    by (simp_all add: example_roles)
  have raw: "get_column example_frame ''Level'' = Inr [Str ''Major'', Str ''Minor'']"
    by code_simp
  have rd: "example_read_csv ''drug_interaction.csv'' = Inr example_frame"
    by (simp add: example_read_csv_def)
  from load_normalizes_drug_columns [OF example_loaded, of "'' AsPirin ''"]
  have drugs: "\<forall>r \<in> set (rows (df example_checker)).
      normalized_cell (r ''Drug_A'') \<and> normalized_cell (r ''Drug_B'')"
    and lvl: "\<exists>raw. example_read_csv ''drug_interaction.csv'' = Inr raw \<and>
       get_column (df example_checker) ''Level'' = get_column raw ''Level''"
    and idem: "normalize (normalize '' AsPirin '') = normalize '' AsPirin ''"
    using distinct by (simp_all add: example_roles)
  from lvl rd raw have "get_column (df example_checker) ''Level'' = Inr [Str ''Major'', Str ''Minor'']"
    by auto
  moreover have "list_all (\<lambda>r. normalized_cell (r ''Drug_A'') \<and> normalized_cell (r ''Drug_B''))
     (rows (df example_checker))"
    using drugs by (simp add: list_all_iff)
  ultimately show ?thesis using example_loaded distinct idem by blast
qed

text \<open>
  The claim as stated fails where the level role falls on a drug column: the header
  \<open>Drug_Interaction_Level\<close>, placed first, passes both the drug A test and the level
  test, so the level \<open>Major\<close> of the file is lowercased by the load.
\<close>

theorem level_not_verbatim_counterexample:
  "init collision_read_csv ''drug_interaction.csv'' = Inr collision_checker \<and>
   level_col collision_checker = ''Drug_Interaction_Level'' \<and>
   get_column collision_frame ''Drug_Interaction_Level'' = Inr [Str ''Major''] \<and>
   get_column (df collision_checker) (level_col collision_checker) = Inr [Str ''major'']"
proof -
  have "\<not> isl (init collision_read_csv ''drug_interaction.csv'')" by code_simp
  then have l: "init collision_read_csv ''drug_interaction.csv'' = Inr collision_checker"
    by (simp add: collision_checker_def)
  have c: "level_col collision_checker = ''Drug_Interaction_Level''" by code_simp
  have r: "get_column collision_frame ''Drug_Interaction_Level'' = Inr [Str ''Major'']"
    by code_simp
  have a: "get_column (df collision_checker) (level_col collision_checker) = Inr [Str ''major'']"
    by code_simp
  from l c r a show ?thesis by blast
qed

section \<open>Looseness of the header tests: claim C10\<close>

lemma is_drug_a_header_iff:
  "is_drug_a_header h \<longleftrightarrow>
     (\<exists>p q. lower h = p @ ''drug'' @ q) \<and> CHR ''a'' \<in> set (lower h)"
proof -
  have "contains ''a'' (lower h) \<longleftrightarrow> CHR ''a'' \<in> set (lower h)"
    by (rule contains_char)
  moreover have "contains ''drug'' (lower h) \<longleftrightarrow> (\<exists>p q. lower h = p @ ''drug'' @ q)"
    by (rule contains_iff)
  ultimately show ?thesis by (simp only: is_drug_a_header_def)
qed

lemma is_drug_b_header_iff:
  "is_drug_b_header h \<longleftrightarrow>
     (\<exists>p q. lower h = p @ ''drug'' @ q) \<and> CHR ''b'' \<in> set (lower h)"
proof -
  have "contains ''b'' (lower h) \<longleftrightarrow> CHR ''b'' \<in> set (lower h)"
    by (rule contains_char)
  moreover have "contains ''drug'' (lower h) \<longleftrightarrow> (\<exists>p q. lower h = p @ ''drug'' @ q)"
    by (rule contains_iff)
  ultimately show ?thesis by (simp only: is_drug_b_header_def)
qed

text \<open>
  C10. The drug A test accepts every header whose lowercase form contains \<open>drug\<close>
  somewhere and the letter \<open>a\<close> somewhere, and the drug B test likewise with \<open>b\<close>.
  Hence on the headers \<open>drug_b_name\<close>, \<open>drug_a_name\<close>, \<open>level\<close> the header naming the
  B column is chosen as the drug A column, and the resolved drug A and drug B columns
  can be one column: the header \<open>drug_a_b\<close> passes both tests.
\<close>

theorem loose_header_tests:
  "(is_drug_a_header h \<longleftrightarrow>
      (\<exists>p q. lower h = p @ ''drug'' @ q) \<and> CHR ''a'' \<in> set (lower h)) \<and>
   (is_drug_b_header h \<longleftrightarrow>
      (\<exists>p q. lower h = p @ ''drug'' @ q) \<and> CHR ''b'' \<in> set (lower h)) \<and>
   detect_columns [''drug_b_name'', ''drug_a_name'', ''level'']
     = Inr (''drug_b_name'', ''drug_b_name'', ''level'') \<and>
   is_drug_a_header ''drug_a_b'' \<and> is_drug_b_header ''drug_a_b'' \<and>
   detect_columns [''drug_a_b'', ''level''] = Inr (''drug_a_b'', ''drug_a_b'', ''level'')"
proof -
  have e1: "detect_columns [''drug_b_name'', ''drug_a_name'', ''level'']
     = Inr (''drug_b_name'', ''drug_b_name'', ''level'')" by code_simp
  have e2: "is_drug_a_header ''drug_a_b''" by code_simp
  have e3: "is_drug_b_header ''drug_a_b''" by code_simp
  have e4: "detect_columns [''drug_a_b'', ''level''] = Inr (''drug_a_b'', ''drug_a_b'', ''level'')"
    by code_simp
  from is_drug_a_header_iff is_drug_b_header_iff e1 e2 e3 e4 show ?thesis by blast
qed

text \<open>A capitalised header that names the B column passes the drug A test.\<close>

theorem loose_header_tests_witness:
  "lower ''Drug_B_Name'' = [] @ ''drug'' @ ''_b_name'' \<and>
   CHR ''a'' \<in> set (lower ''Drug_B_Name'') \<and>
   is_drug_a_header ''Drug_B_Name'' \<and> is_drug_b_header ''Drug_B_Name''"
proof -
  have l: "lower ''Drug_B_Name'' = [] @ ''drug'' @ ''_b_name''" by code_simp
  have a: "CHR ''a'' \<in> set (lower ''Drug_B_Name'')" by code_simp
  have b: "CHR ''b'' \<in> set (lower ''Drug_B_Name'')" by code_simp
  have ex: "\<exists>p q. lower ''Drug_B_Name'' = p @ ''drug'' @ q" using l by blast
  show ?thesis using loose_header_tests [of "''Drug_B_Name''"] l a b ex by blast
qed

end
